theory Spec2Isabelle
  imports Complex_Main
begin

section \<open>Freshness policies: data model\<close>

text \<open>
  The development follows \<^verbatim>\<open>dagster/_core/definitions/freshness_policy.py\<close>.

  Conventions of the embedding.
  \<^item> A \<^verbatim>\<open>datetime.datetime\<close> is an absolute instant, counted in microseconds (the
    resolution of Python's datetimes) from the epoch; a \<^verbatim>\<open>datetime.timedelta\<close> is a
    number of microseconds. Both are unbounded integers: Python's year range 1..9999 and
    the range of \<^verbatim>\<open>timedelta\<close> are not modelled.
  \<^item> A Python \<^verbatim>\<open>float\<close> is the rational number it denotes and float arithmetic is exact:
    binary rounding, infinities and NaN are not modelled. \<^verbatim>\<open>datetime.timestamp()\<close> is the
    instant itself.
  \<^item> An iterator is the sequence of the results of its successive \<^verbatim>\<open>next\<close> calls:
    \<open>it n\<close> is what the \<open>n\<close>-th call returns, \<open>None\<close> when the iterator is exhausted.
\<close>

type_synonym instant = int
type_synonym timedelta = int
type_synonym 'a iterator = "nat \<Rightarrow> 'a option"

text \<open>
  \<^verbatim>\<open>datetime.timedelta(minutes=m)\<close> keeps whole microseconds; a fractional number of
  microseconds is rounded to the nearest one, ties to the even neighbour.
\<close>

definition round_half_even :: "rat \<Rightarrow> int" where
  "round_half_even x =
     (let f = \<lfloor>x\<rfloor>; d = x - of_int f
      in if d < 1 / 2 then f
         else if 1 / 2 < d then f + 1
         else if even f then f else f + 1)"

definition timedelta_minutes :: "rat \<Rightarrow> timedelta" where
  "timedelta_minutes m = round_half_even (m * 60000000)"

text \<open>\<^verbatim>\<open>timedelta.total_seconds()\<close>.\<close>

definition total_seconds :: "timedelta \<Rightarrow> rat" where
  "total_seconds d = of_int d / 1000000"

text \<open>
  The values a caller can pass for \<^verbatim>\<open>maximum_lag_minutes\<close>. The two other arguments
  of the constructor are taken at their annotated type \<^verbatim>\<open>Optional[str]\<close>.
\<close>

datatype pyvalue = PyInt int | PyFloat rat | PyBool bool | PyStr string | PyNone

text \<open>
  The exceptions of the module. \<open>DagsterInvalidDefinitionError\<close> carries its message;
  \<open>ParameterCheckError\<close> is the error of the functions of \<^verbatim>\<open>dagster._check\<close> and
  carries the name of the parameter and the description the caller passed, if any;
  \<open>StopIteration\<close> is what \<^verbatim>\<open>next\<close> without a default raises on an exhausted iterator.
\<close>

datatype error =
    is_DagsterInvalidDefinitionError: DagsterInvalidDefinitionError string
  | is_ParameterCheckError: ParameterCheckError string "string option"
  | is_StopIteration: StopIteration

record FreshnessPolicy =
  maximum_lag_minutes :: rat
  cron_schedule :: "string option"
  cron_schedule_timezone :: "string option"

record 'k FreshnessConstraint =
  asset_keys :: "'k set"
  required_data_time :: instant
  required_by_time :: instant

text \<open>
  The collaborators imported by the module, whose code is not part of the sources
  followed here, are parameters of the model:
  \<^item> \<^verbatim>\<open>is_valid_cron_schedule\<close>, \<^verbatim>\<open>cron_string_iterator\<close> and
    \<^verbatim>\<open>reverse_cron_string_iterator\<close> of \<^verbatim>\<open>dagster._utils.schedules\<close> (the iterators take
    the timestamp, the cron string and the optional timezone);
  \<^item> \<open>timezone_loads\<close>: whether \<^verbatim>\<open>pendulum.tz.timezone(name)\<close> returns without raising.
\<close>

record env =
  is_valid_cron_schedule :: "string \<Rightarrow> bool"
  cron_string_iterator :: "instant \<Rightarrow> string \<Rightarrow> string option \<Rightarrow> instant iterator"
  reverse_cron_string_iterator :: "instant \<Rightarrow> string \<Rightarrow> string option \<Rightarrow> instant iterator"
  timezone_loads :: "string \<Rightarrow> bool"


section \<open>Construction and pickling\<close>

text \<open>
  Modelled from the spec: \<^verbatim>\<open>check.numeric_param\<close> of \<^verbatim>\<open>dagster._check\<close>, a module that
  is not among the sources ("non-numeric input fails with a parameter-validation error").
  It returns its argument when that is an \<^verbatim>\<open>int\<close> or a \<^verbatim>\<open>float\<close> (a \<^verbatim>\<open>bool\<close> is an \<^verbatim>\<open>int\<close>
  in Python) and fails otherwise; the call in \<^verbatim>\<open>__new__\<close> passes no additional message.
\<close>

definition numeric_param :: "pyvalue \<Rightarrow> string \<Rightarrow> error + pyvalue" where
  "numeric_param obj param_name =
     (case obj of
        PyInt i \<Rightarrow> Inr obj
      | PyFloat x \<Rightarrow> Inr obj
      | PyBool b \<Rightarrow> Inr obj
      | _ \<Rightarrow> Inl (ParameterCheckError param_name None))"

text \<open>
  Modelled from the spec: \<^verbatim>\<open>check.param_invariant\<close> of the same absent module, the check
  of a condition on a named parameter. The spec names one error of parameter validation,
  the one \<^verbatim>\<open>check.numeric_param\<close> raises; \<open>param_invariant\<close> is taken to raise it too when
  its condition is false, for the parameter named and with the description passed. It is
  not the \<^verbatim>\<open>DagsterInvalidDefinitionError\<close> of \<^verbatim>\<open>dagster._core.errors\<close>: \<^verbatim>\<open>__new__\<close> raises
  that one by hand for an invalid cron string, just before it calls \<^verbatim>\<open>param_invariant\<close>
  on the same condition.
\<close>

definition param_invariant :: "bool \<Rightarrow> string \<Rightarrow> string \<Rightarrow> error + unit" where
  "param_invariant condition param_name desc =
     (if condition then Inr () else Inl (ParameterCheckError param_name (Some desc)))"

text \<open>\<^verbatim>\<open>float(v)\<close> for a value that passed \<open>numeric_param\<close>.\<close>

definition float_of :: "pyvalue \<Rightarrow> rat" where
  "float_of v =
     (case v of
        PyInt i \<Rightarrow> of_int i
      | PyFloat x \<Rightarrow> x
      | PyBool b \<Rightarrow> (if b then 1 else 0)
      | _ \<Rightarrow> 0)"

text \<open>A string between single quotes, as \<^verbatim>\<open>'{cron_schedule}'\<close> formats it.\<close>

definition quoted :: "string \<Rightarrow> string" where
  "quoted s = CHR 0x27 # s @ [CHR 0x27]"

text \<open>
  \<^verbatim>\<open>FreshnessPolicy.__new__\<close>. The checks run in the order of the source: the cron string,
  then the timezone (first that a cron string comes with it, then that it loads), then
  \<^verbatim>\<open>maximum_lag_minutes\<close>. The second test of the cron string (\<^verbatim>\<open>check.param_invariant\<close>
  after the \<^verbatim>\<open>raise\<close>) cannot fail and is left out, and so is \<^verbatim>\<open>check.opt_str_param\<close>,
  which accepts every argument of type \<^verbatim>\<open>Optional[str]\<close>. The message of the timezone
  error is not an f-string in the source, so the braces are part of it.
\<close>

definition FreshnessPolicy_new ::
  "env \<Rightarrow> pyvalue \<Rightarrow> string option \<Rightarrow> string option \<Rightarrow> error + FreshnessPolicy"
where
  "FreshnessPolicy_new env maximum_lag_minutes_arg cron_schedule_arg cron_schedule_timezone_arg =
     (case (case cron_schedule_arg of
              None \<Rightarrow> Inr ()
            | Some c \<Rightarrow>
                if \<not> is_valid_cron_schedule env c
                then Inl (DagsterInvalidDefinitionError
                            (''Invalid cron schedule '' @ quoted c @ ''.''))
                else Inr ()) of
        Inl e \<Rightarrow> Inl e
      | Inr _ \<Rightarrow>
     (case (case cron_schedule_timezone_arg of
              None \<Rightarrow> Inr ()
            | Some tz \<Rightarrow>
                (case param_invariant (cron_schedule_arg \<noteq> None) ''cron_schedule_timezone''
                        ''Cannot specify cron_schedule_timezone without a cron_schedule.'' of
                   Inl e \<Rightarrow> Inl e
                 | Inr _ \<Rightarrow>
                     if timezone_loads env tz then Inr ()
                     else Inl (DagsterInvalidDefinitionError
                            ''Invalid cron schedule timezone '{cron_schedule_timezone}'.   ''))) of
        Inl e \<Rightarrow> Inl e
      | Inr _ \<Rightarrow>
     (case numeric_param maximum_lag_minutes_arg ''maximum_lag_minutes'' of
        Inl e \<Rightarrow> Inl e
      | Inr v \<Rightarrow>
          Inr \<lparr>maximum_lag_minutes = float_of v,
               cron_schedule = cron_schedule_arg,
               cron_schedule_timezone = cron_schedule_timezone_arg\<rparr>)))"

text \<open>
  \<^verbatim>\<open>__reduce__\<close> returns the constructor \<^verbatim>\<open>_create\<close> and its argument tuple;
  \<^verbatim>\<open>_create(*args)\<close> calls the class with \<^verbatim>\<open>args[0]\<close> and \<^verbatim>\<open>args[1]\<close> and no timezone.
\<close>

definition FreshnessPolicy_reduce :: "FreshnessPolicy \<Rightarrow> pyvalue \<times> string option" where
  "FreshnessPolicy_reduce self = (PyFloat (maximum_lag_minutes self), cron_schedule self)"

definition FreshnessPolicy_create :: "env \<Rightarrow> pyvalue \<times> string option \<Rightarrow> error + FreshnessPolicy" where
  "FreshnessPolicy_create env args = FreshnessPolicy_new env (fst args) (snd args) None"

definition maximum_lag_delta :: "FreshnessPolicy \<Rightarrow> timedelta" where
  "maximum_lag_delta self = timedelta_minutes (maximum_lag_minutes self)"

text \<open>
  The truth value of \<^verbatim>\<open>self.cron_schedule\<close> in \<^verbatim>\<open>if self.cron_schedule:\<close>: \<^verbatim>\<open>None\<close> and the
  empty string are false.
\<close>

definition truthy :: "string option \<Rightarrow> bool" where
  "truthy s = (case s of None \<Rightarrow> False | Some c \<Rightarrow> c \<noteq> [])"


section \<open>Constraint generation\<close>

text \<open>
  \<^verbatim>\<open>pendulum.period(start, end).range("minutes", amount)\<close>, a function of the pendulum
  library. The generator yields \<open>start\<close>, then \<open>start\<close> plus \<open>amount\<close>, \<open>2 * amount\<close>, ...
  minutes for as long as the value is at most \<open>end\<close>; when \<open>start\<close> is after \<open>end\<close> the
  period is inverted: it subtracts and goes on for as long as the value is at least
  \<open>end\<close>. Every value is \<open>start\<close> shifted by a \<^verbatim>\<open>timedelta\<close> of that many minutes; the
  \<open>n\<close>-th multiple, which the generator accumulates by repeated addition, is \<open>n * amount\<close>.
\<close>

definition period_range :: "instant \<Rightarrow> instant \<Rightarrow> rat \<Rightarrow> instant iterator" where
  "period_range start end amount n =
     (if end < start then
        (let t = start - timedelta_minutes (of_nat n * amount)
         in if end \<le> t then Some t else None)
      else
        (let t = start + timedelta_minutes (of_nat n * amount)
         in if t \<le> end then Some t else None))"

text \<open>
  The loop of \<^verbatim>\<open>constraints_for_time_window\<close>. \<open>n\<close> counts the calls of \<^verbatim>\<open>next\<close> made
  before the current tick was fetched, so \<open>constraint_ticks n\<close> is \<^verbatim>\<open>evaluation_tick\<close>.
  The source fetches the next tick before it tests the size of the set; the fetch does
  not change the set, so the test comes first here. The loop need not end (an iterator may repeat one tick for ever): not returning is
  the value \<open>None\<close>.
\<close>

partial_function (option) constraint_loop ::
  "instant iterator \<Rightarrow> timedelta \<Rightarrow> instant \<Rightarrow> 'k set \<Rightarrow> nat \<Rightarrow> 'k FreshnessConstraint set
     \<Rightarrow> 'k FreshnessConstraint set option"
where
  "constraint_loop constraint_ticks lag window_end upstream_keys n constraints =
     (case constraint_ticks n of
        None \<Rightarrow> Some constraints
      | Some evaluation_tick \<Rightarrow>
          if evaluation_tick < window_end then
            (let constraints' =
                   insert \<lparr>asset_keys = upstream_keys,
                           required_data_time = evaluation_tick - lag,
                           required_by_time = evaluation_tick\<rparr> constraints
             in if card constraints' > 100 then Some constraints'
                else constraint_loop constraint_ticks lag window_end upstream_keys (Suc n)
                       constraints')
          else Some constraints)"

text \<open>
  The first block of \<^verbatim>\<open>constraints_for_time_window\<close>, which chooses the iterator of
  the times the constraints are evaluated at: the cron ticks from \<open>window_start\<close> on,
  or else the samples of the window every \<^verbatim>\<open>maximum_lag_minutes / 10.0 + 0.1\<close> minutes.
\<close>

definition constraint_ticks ::
  "env \<Rightarrow> FreshnessPolicy \<Rightarrow> instant \<Rightarrow> instant \<Rightarrow> instant iterator"
where
  "constraint_ticks env self window_start window_end =
     (if truthy (cron_schedule self)
      then cron_string_iterator env window_start (the (cron_schedule self))
             (cron_schedule_timezone self)
      else period_range window_start window_end (maximum_lag_minutes self / 10 + 1 / 10))"

definition constraints_for_time_window ::
  "env \<Rightarrow> FreshnessPolicy \<Rightarrow> instant \<Rightarrow> instant \<Rightarrow> 'k set \<Rightarrow> 'k FreshnessConstraint set option"
where
  "constraints_for_time_window env self window_start window_end upstream_keys =
     constraint_loop (constraint_ticks env self window_start window_end)
       (maximum_lag_delta self) window_end upstream_keys 0 {}"


section \<open>Lateness\<close>

text \<open>
  The loop of \<^verbatim>\<open>minutes_late\<close> over \<^verbatim>\<open>used_data_times.values()\<close>, with the running maximum
  \<open>minutes_late_acc\<close>; \<open>None\<close> is the source's \<^verbatim>\<open>return None\<close>.
\<close>

fun late_loop :: "instant \<Rightarrow> timedelta \<Rightarrow> instant option list \<Rightarrow> rat \<Rightarrow> rat option" where
  "late_loop evaluation_tick lag [] minutes_late_acc = Some minutes_late_acc"
| "late_loop evaluation_tick lag (None # rest) minutes_late_acc = None"
| "late_loop evaluation_tick lag (Some used_data_time # rest) minutes_late_acc =
     (let required_time = evaluation_tick - lag
      in late_loop evaluation_tick lag rest
           (if used_data_time < required_time
            then max minutes_late_acc (total_seconds (required_time - used_data_time) / 60)
            else minutes_late_acc))"

text \<open>
  The first block of \<^verbatim>\<open>minutes_late\<close>, which chooses \<^verbatim>\<open>evaluation_tick\<close>. With a cron
  schedule it is the first element of the reverse iterator; \<^verbatim>\<open>next\<close> has no default
  there, so an exhausted iterator raises.
\<close>

definition evaluation_tick_of :: "env \<Rightarrow> FreshnessPolicy \<Rightarrow> instant \<Rightarrow> error + instant" where
  "evaluation_tick_of env self evaluation_time =
     (if truthy (cron_schedule self)
      then (case reverse_cron_string_iterator env evaluation_time (the (cron_schedule self))
                   (cron_schedule_timezone self) 0 of
              None \<Rightarrow> Inl StopIteration
            | Some t \<Rightarrow> Inr t)
      else Inr evaluation_time)"

text \<open>
  \<^verbatim>\<open>minutes_late\<close>. The mapping \<^verbatim>\<open>used_data_times\<close> is the list of its items in iteration
  order.
\<close>

definition minutes_late ::
  "env \<Rightarrow> FreshnessPolicy \<Rightarrow> instant \<Rightarrow> ('k \<times> instant option) list \<Rightarrow> error + rat option"
where
  "minutes_late env self evaluation_time used_data_times =
     (case evaluation_tick_of env self evaluation_time of
        Inl e \<Rightarrow> Inl e
      | Inr evaluation_tick \<Rightarrow>
          Inr (late_loop evaluation_tick (maximum_lag_delta self) (map snd used_data_times) 0))"




section \<open>A sample cron tick source\<close>

text \<open>
  Modelled from the spec: the cron tick source (\<^verbatim>\<open>dagster._utils.schedules\<close>, not among the
  sources) for the one schedule \<^verbatim>\<open>0 9 * * *\<close> evaluated in UTC, used to run the model on
  concrete inputs. The forward sequence is ascending and starts with the first 9AM at or
  after the start instant; the reverse sequence is descending and starts with the last
  9AM at or before the end instant; both are infinite. Every other cron string is
  invalid here, and \<^verbatim>\<open>UTC\<close> is the one timezone that loads.
\<close>

definition day :: int where
  "day = 86400000000"

definition hour :: int where
  "hour = 3600000000"

definition sample_env :: env where
  "sample_env =
     \<lparr>is_valid_cron_schedule = (\<lambda>c. c = ''0 9 * * *''),
      cron_string_iterator = (\<lambda>start c tz n.
         if c = ''0 9 * * *'' \<and> (tz = None \<or> tz = Some ''UTC'')
         then Some (((start - 9 * hour + (day - 1)) div day + int n) * day + 9 * hour)
         else None),
      reverse_cron_string_iterator = (\<lambda>end c tz n.
         if c = ''0 9 * * *'' \<and> (tz = None \<or> tz = Some ''UTC'')
         then Some (((end - 9 * hour) div day - int n) * day + 9 * hour)
         else None),
      timezone_loads = (\<lambda>tz. tz = ''UTC'')\<rparr>"


section \<open>Auxiliary notions for the proofs\<close>

text \<open>The constraint that the loop adds for a tick \<open>t\<close>.\<close>

abbreviation (input) constraint_at :: "'k set \<Rightarrow> timedelta \<Rightarrow> instant \<Rightarrow> 'k FreshnessConstraint" where
  "constraint_at keys lag t \<equiv>
     \<lparr>asset_keys = keys, required_data_time = t - lag, required_by_time = t\<rparr>"

text \<open>
  What holds of every constraint the loop adds: it carries the upstream keys, its two
  times differ by the lag, and its deadline is a tick of the iterator before the end of
  the window.
\<close>

definition emitted_by ::
  "instant iterator \<Rightarrow> timedelta \<Rightarrow> instant \<Rightarrow> 'k set \<Rightarrow> 'k FreshnessConstraint \<Rightarrow> bool"
where
  "emitted_by ticks lag window_end keys c \<longleftrightarrow>
     asset_keys c = keys \<and> required_data_time c = required_by_time c - lag \<and>
     required_by_time c < window_end \<and> (\<exists>j. ticks j = Some (required_by_time c))"


section \<open>Rounding of durations\<close>

lemma round_half_even_of_int: "round_half_even (of_int k) = k"
  by (simp add: round_half_even_def)

lemma round_half_even_bounds:
  "of_int (round_half_even x) \<le> x + 1 / 2 \<and> x - 1 / 2 \<le> of_int (round_half_even x)"
proof -
  define f where "f = \<lfloor>x\<rfloor>"
  have fl: "of_int f \<le> x" "x < of_int f + 1" unfolding f_def by linarith+
  consider "x - of_int f < 1 / 2" | "1 / 2 < x - of_int f" | "x - of_int f = 1 / 2"
    by linarith
  then show ?thesis
  proof cases
    case 1
    then have "round_half_even x = f" by (simp add: round_half_even_def f_def)
    with 1 fl show ?thesis by simp
  next
    case 2
    then have "round_half_even x = f + 1" by (simp add: round_half_even_def f_def)
    with 2 fl show ?thesis by simp
  next
    case 3
    then have "round_half_even x = f \<or> round_half_even x = f + 1"
      by (simp add: round_half_even_def f_def Let_def)
    with 3 fl show ?thesis by auto
  qed
qed

lemma round_half_even_strict_mono:
  assumes "x + 1 < y"
  shows "round_half_even x < round_half_even y"
proof -
  have "(of_int (round_half_even x)::rat) \<le> x + 1 / 2"
    using round_half_even_bounds [of x] by simp
  also have "\<dots> < y - 1 / 2" using assms by simp
  also have "\<dots> \<le> of_int (round_half_even y)"
    using round_half_even_bounds [of y] by simp
  finally show ?thesis by simp
qed

lemma timedelta_minutes_0: "timedelta_minutes 0 = 0"
  by (simp add: timedelta_minutes_def round_half_even_def)

section \<open>The constraint loop\<close>

lemma constraint_loop_emitted:
  "constraint_loop ticks lag window_end keys n cs = Some r \<Longrightarrow>
   (\<forall>c\<in>cs. emitted_by ticks lag window_end keys c) \<longrightarrow>
   (\<forall>c\<in>r. emitted_by ticks lag window_end keys c)"
proof (induction rule: constraint_loop.raw_induct [rotated 1, consumes 1])
  case (1 loop ticks lag window_end keys n cs r)
  show ?case
  proof (cases "ticks n")
    case None
    with 1(2) show ?thesis by simp
  next
    case (Some t)
    let ?c = "\<lparr>asset_keys = keys, required_data_time = t - lag, required_by_time = t\<rparr>"
    show ?thesis
    proof (cases "t < window_end")
      case False
      with Some 1(2) show ?thesis by simp
    next
      case True
      have new: "emitted_by ticks lag window_end keys ?c"
        using Some True by (auto simp: emitted_by_def)
      show ?thesis
      proof (cases "100 < card (insert ?c cs)")
        case True
        with Some \<open>t < window_end\<close> 1(2) have "r = insert ?c cs" by (simp add: Let_def)
        with new show ?thesis by simp
      next
        case False
        with Some \<open>t < window_end\<close> 1(2)
        have "loop ticks lag window_end keys (Suc n) (insert ?c cs) = Some r"
          by (simp add: Let_def)
        from 1(1) [OF this] new show ?thesis by simp
      qed
    qed
  qed
qed

lemma constraint_loop_card:
  "constraint_loop ticks lag window_end keys n cs = Some r \<Longrightarrow>
   finite cs \<and> card cs \<le> 100 \<longrightarrow> finite r \<and> card r \<le> 101"
proof (induction rule: constraint_loop.raw_induct [rotated 1, consumes 1])
  case (1 loop ticks lag window_end keys n cs r)
  show ?case
  proof (cases "ticks n")
    case None
    with 1(2) show ?thesis by simp
  next
    case (Some t)
    let ?c = "\<lparr>asset_keys = keys, required_data_time = t - lag, required_by_time = t\<rparr>"
    show ?thesis
    proof (cases "t < window_end")
      case False
      with Some 1(2) show ?thesis by simp
    next
      case True
      show ?thesis
      proof (cases "100 < card (insert ?c cs)")
        case True
        with Some \<open>t < window_end\<close> 1(2) have r: "r = insert ?c cs" by (simp add: Let_def)
        show ?thesis
        proof
          assume a: "finite cs \<and> card cs \<le> 100"
          then have "card (insert ?c cs) \<le> Suc (card cs)" by (simp add: card_insert_if)
          with a r show "finite r \<and> card r \<le> 101" by simp
        qed
      next
        case False
        with Some \<open>t < window_end\<close> 1(2)
        have "loop ticks lag window_end keys (Suc n) (insert ?c cs) = Some r"
          by (simp add: Let_def)
        from 1(1) [OF this] False show ?thesis by simp
      qed
    qed
  qed
qed

lemma constraint_loop_returns:
  assumes norep: "\<forall>i j. i < j \<longrightarrow> ticks i \<noteq> None \<longrightarrow> ticks j \<noteq> ticks i"
  shows "n \<le> 100 \<Longrightarrow> finite cs \<Longrightarrow> card cs = n \<Longrightarrow>
         \<forall>c\<in>cs. \<exists>i<n. ticks i = Some (required_by_time c) \<Longrightarrow>
         \<exists>r. constraint_loop ticks lag window_end keys n cs = Some r"
proof (induction "100 - n" arbitrary: n cs)
  case 0
  then have n: "n = 100" by simp
  show ?case
  proof (cases "ticks n")
    case None
    then show ?thesis by (simp add: constraint_loop.simps)
  next
    case (Some t)
    have fresh: "constraint_at keys lag t \<notin> cs"
    proof
      assume "constraint_at keys lag t \<in> cs"
      with "0.prems"(4) obtain i where "i < n" "ticks i = Some t" by fastforce
      with norep Some show False by (metis option.distinct(1))
    qed
    then have "card (insert (constraint_at keys lag t) cs) = 101"
      using "0.prems"(2,3) n by simp
    with Some show ?thesis
      by (subst constraint_loop.simps) (simp add: Let_def)
  qed
next
  case (Suc d)
  then have n: "n < 100" by simp
  show ?case
  proof (cases "ticks n")
    case None
    then show ?thesis by (simp add: constraint_loop.simps)
  next
    case (Some t)
    have fresh: "constraint_at keys lag t \<notin> cs"
    proof
      assume "constraint_at keys lag t \<in> cs"
      with Suc.prems(4) obtain i where "i < n" "ticks i = Some t" by fastforce
      with norep Some show False by (metis option.distinct(1))
    qed
    then have card: "card (insert (constraint_at keys lag t) cs) = Suc n"
      using Suc.prems(2,3) by simp
    have "\<exists>r. constraint_loop ticks lag window_end keys (Suc n) (insert (constraint_at keys lag t) cs) = Some r"
    proof (rule Suc.hyps(1))
      show "d = 100 - Suc n" using Suc.hyps(2) by simp
      show "Suc n \<le> 100" using n by simp
      show "finite (insert (constraint_at keys lag t) cs)" using Suc.prems(2) by simp
      show "card (insert (constraint_at keys lag t) cs) = Suc n" by (rule card)
      show "\<forall>c\<in>insert (constraint_at keys lag t) cs. \<exists>i<Suc n. ticks i = Some (required_by_time c)"
        using Suc.prems(4) Some by (auto intro: less_SucI)
    qed
    with Some card n show ?thesis
      by (subst constraint_loop.simps) (simp add: Let_def)
  qed
qed

lemma card_first:
  assumes inj: "inj_on f {0..<m::nat}"
  shows "card (constraint_at keys lag ` f ` {0..<m}) = m"
proof -
  have "inj_on (\<lambda>j. constraint_at keys lag (f j)) {0..<m}"
    using inj by (auto simp: inj_on_def)
  then have "card ((\<lambda>j. constraint_at keys lag (f j)) ` {0..<m}) = m"
    by (simp add: card_image)
  then show ?thesis by (simp add: image_image)
qed

lemma constraint_loop_first_101:
  assumes ticks: "\<forall>j<101. ticks j = Some (f j) \<and> f j < window_end"
    and inj: "inj_on f {0..<101}"
  shows "n \<le> 100 \<Longrightarrow>
         constraint_loop ticks lag window_end keys n (constraint_at keys lag ` f ` {0..<n})
           = Some (constraint_at keys lag ` f ` {0..<101})"
proof (induction "100 - n" arbitrary: n)
  case 0
  then have n: "n = 100" by simp
  have tick: "ticks n = Some (f n)" "f n < window_end" using ticks n by auto
  have ins: "insert (constraint_at keys lag (f n)) (constraint_at keys lag ` f ` {0..<n}) = constraint_at keys lag ` f ` {0..<Suc n}"
    by (simp add: atLeast0_lessThan_Suc)
  have card: "card (constraint_at keys lag ` f ` {0..<Suc n}) = Suc n"
    using inj n by (intro card_first) (auto simp: inj_on_def)
  show ?case
    by (subst constraint_loop.simps) (simp add: tick Let_def ins card, simp add: n)
next
  case (Suc d)
  then have n: "n < 100" by simp
  have tick: "ticks n = Some (f n)" "f n < window_end" using ticks n by auto
  have ins: "insert (constraint_at keys lag (f n)) (constraint_at keys lag ` f ` {0..<n}) = constraint_at keys lag ` f ` {0..<Suc n}"
    by (simp add: atLeast0_lessThan_Suc)
  have card: "card (constraint_at keys lag ` f ` {0..<Suc n}) = Suc n"
    using inj n by (intro card_first) (auto simp: inj_on_def)
  have rec: "constraint_loop ticks lag window_end keys (Suc n) (constraint_at keys lag ` f ` {0..<Suc n})
               = Some (constraint_at keys lag ` f ` {0..<101})"
    using Suc.hyps(2) n by (intro Suc.hyps(1)) simp_all
  show ?case
    using n by (subst constraint_loop.simps) (simp add: tick Let_def ins card rec)
qed

lemma constraint_loop_stuck:
  "constraint_loop ticks lag window_end keys n cs = Some r \<Longrightarrow>
   \<not> ((\<forall>m. ticks m = Some t) \<and> t < window_end \<and> cs = {constraint_at keys lag t})"
proof (induction rule: constraint_loop.raw_induct [rotated 1, consumes 1])
  case (1 loop ticks lag window_end keys n cs r)
  show ?case
  proof
    assume a: "(\<forall>m. ticks m = Some t) \<and> t < window_end \<and> cs = {constraint_at keys lag t}"
    with 1(2) have "loop ticks lag window_end keys (Suc n) cs = Some r"
      by (simp add: Let_def)
    from 1(1) [OF this] a show False by simp
  qed
qed

lemma period_range_no_repeat:
  assumes lag: "0 \<le> lag_minutes" and ij: "i < j"
    and some: "period_range window_start window_end (lag_minutes / 10 + 1 / 10) i \<noteq> None"
  shows "period_range window_start window_end (lag_minutes / 10 + 1 / 10) j
         \<noteq> period_range window_start window_end (lag_minutes / 10 + 1 / 10) i"
proof -
  define a where "a = lag_minutes / 10 + 1 / 10"
  have a: "1 / 10 \<le> a" using lag by (simp add: a_def)
  have "of_nat i + 1 \<le> (of_nat j :: rat)" using ij by (simp flip: of_nat_Suc)
  then have "(of_nat i + 1) * a \<le> of_nat j * a"
    using a by (intro mult_right_mono) simp_all
  then have "of_nat i * a * 60000000 + 1 < of_nat j * a * 60000000"
    using a by (simp add: algebra_simps)
  then have lt: "timedelta_minutes (of_nat i * a) < timedelta_minutes (of_nat j * a)"
    unfolding timedelta_minutes_def by (rule round_half_even_strict_mono)
  show ?thesis
    using lt some unfolding a_def [symmetric]
    by (auto simp: period_range_def Let_def split: if_splits)
qed


section \<open>The lateness loop\<close>

lemma late_loop_None_iff:
  "late_loop tick lag vs m = None \<longleftrightarrow> None \<in> set vs"
proof (induction vs arbitrary: m)
  case Nil
  show ?case by simp
next
  case (Cons v vs)
  show ?case
  proof (cases v)
    case None
    then show ?thesis by simp
  next
    case (Some u)
    then show ?thesis using Cons.IH by (simp add: Let_def)
  qed
qed




section \<open>Constraints of a time window\<close>

lemma sample_cron_run:
  "constraints_for_time_window sample_env
     \<lparr>maximum_lag_minutes = 1440, cron_schedule = Some ''0 9 * * *'', cron_schedule_timezone = None\<rparr>
     0 172800000000 {[''a'']}
   = Some {\<lparr>asset_keys = {[''a'']}, required_data_time = 32400000000, required_by_time = 118800000000\<rparr>,
           \<lparr>asset_keys = {[''a'']}, required_data_time = - 54000000000, required_by_time = 32400000000\<rparr>}"
  by (simp add: constraints_for_time_window_def constraint_ticks_def constraint_loop.simps
      sample_env_def day_def hour_def truthy_def maximum_lag_delta_def timedelta_minutes_def
      round_half_even_def Let_def)

lemma sample_cron_forward_from:
  "cron_string_iterator sample_env start c tz n = Some t \<Longrightarrow> start \<le> t"
proof -
  assume a: "cron_string_iterator sample_env start c tz n = Some t"
  have "start - 9 * hour + (day - 1) - (start - 9 * hour + (day - 1)) mod day
        = (start - 9 * hour + (day - 1)) div day * day"
    by (simp add: minus_mod_eq_div_mult)
  moreover have "(start - 9 * hour + (day - 1)) mod day < day"
    by (simp add: day_def)
  ultimately have "start \<le> (start - 9 * hour + (day - 1)) div day * day + 9 * hour"
    by linarith
  moreover have "0 \<le> int n * day" by (simp add: day_def)
  ultimately have "start \<le> ((start - 9 * hour + (day - 1)) div day + int n) * day + 9 * hour"
    by (simp add: algebra_simps)
  with a show ?thesis by (auto simp: sample_env_def split: if_splits)
qed

text \<open>
  C1. Every constraint returned by \<^verbatim>\<open>constraints_for_time_window\<close> carries the upstream
  keys, has \<open>required_data_time = required_by_time - maximum_lag\<close> and a deadline before
  the end of the window; with a cron schedule whose forward ticks are not before the
  start timestamp, the deadline is not before the start of the window either.
\<close>

theorem constraints_offset_and_window:
  assumes res: "constraints_for_time_window env self window_start window_end upstream_keys
                  = Some constraints"
    and mem: "c \<in> constraints"
    and src: "truthy (cron_schedule self) \<longrightarrow>
              (\<forall>n t. cron_string_iterator env window_start (the (cron_schedule self))
                       (cron_schedule_timezone self) n = Some t \<longrightarrow> window_start \<le> t)"
  shows "required_data_time c = required_by_time c - maximum_lag_delta self \<and>
         asset_keys c = upstream_keys \<and>
         required_by_time c < window_end \<and>
         (truthy (cron_schedule self) \<longrightarrow> window_start \<le> required_by_time c)"
proof -
  let ?ticks = "constraint_ticks env self window_start window_end"
  have "\<forall>c\<in>constraints. emitted_by ?ticks (maximum_lag_delta self) window_end upstream_keys c"
    using constraint_loop_emitted [OF res [unfolded constraints_for_time_window_def]] by simp
  with mem have e: "emitted_by ?ticks (maximum_lag_delta self) window_end upstream_keys c" by blast
  then obtain j where j: "?ticks j = Some (required_by_time c)"
    by (auto simp: emitted_by_def)
  have "window_start \<le> required_by_time c" if "truthy (cron_schedule self)"
    using that j src by (simp add: constraint_ticks_def)
  with e show ?thesis by (simp add: emitted_by_def)
qed

theorem constraints_offset_and_window_witness:
  "constraints_for_time_window sample_env
     \<lparr>maximum_lag_minutes = 1440, cron_schedule = Some ''0 9 * * *'', cron_schedule_timezone = None\<rparr>
     0 172800000000 {[''a'']}
   = Some {\<lparr>asset_keys = {[''a'']}, required_data_time = 32400000000, required_by_time = 118800000000\<rparr>,
           \<lparr>asset_keys = {[''a'']}, required_data_time = - 54000000000, required_by_time = 32400000000\<rparr>} \<and>
   (32400000000::int) = 118800000000 - maximum_lag_delta
     \<lparr>maximum_lag_minutes = 1440, cron_schedule = Some ''0 9 * * *'', cron_schedule_timezone = None\<rparr> \<and>
   (0::int) \<le> 118800000000 \<and> (118800000000::int) < 172800000000"
proof -
  let ?p = "\<lparr>maximum_lag_minutes = 1440, cron_schedule = Some ''0 9 * * *'',
             cron_schedule_timezone = None\<rparr>"
  let ?c = "\<lparr>asset_keys = {[''a'']}, required_data_time = 32400000000,
             required_by_time = 118800000000\<rparr>"
  have src: "truthy (cron_schedule ?p) \<longrightarrow>
       (\<forall>n t. cron_string_iterator sample_env 0 (the (cron_schedule ?p))
                (cron_schedule_timezone ?p) n = Some t \<longrightarrow> 0 \<le> t)"
    using sample_cron_forward_from by blast
  have mem: "?c \<in> {?c, \<lparr>asset_keys = {[''a'']}, required_data_time = - 54000000000,
                    required_by_time = 32400000000\<rparr>}"
    by simp
  have tr: "truthy (cron_schedule ?p)" by (simp add: truthy_def)
  from constraints_offset_and_window [OF sample_cron_run mem src] sample_cron_run tr
  show ?thesis by simp
qed

text \<open>
  C3. A window whose start and end coincide yields the empty set, with or without a
  cron schedule; with one, the first forward tick is taken not to be before the start
  timestamp.
\<close>

theorem empty_window_no_constraints:
  assumes src: "truthy (cron_schedule self) \<longrightarrow>
              (\<forall>t. cron_string_iterator env w (the (cron_schedule self))
                     (cron_schedule_timezone self) 0 = Some t \<longrightarrow> w \<le> t)"
  shows "constraints_for_time_window env self w w upstream_keys = Some {}"
proof (cases "truthy (cron_schedule self)")
  case True
  let ?it = "cron_string_iterator env w (the (cron_schedule self)) (cron_schedule_timezone self)"
  show ?thesis
  proof (cases "?it 0")
    case None
    with True show ?thesis
      unfolding constraints_for_time_window_def constraint_ticks_def
      by (subst constraint_loop.simps) simp
  next
    case (Some t)
    with src True have "\<not> t < w" by auto
    with True Some show ?thesis
      unfolding constraints_for_time_window_def constraint_ticks_def
      by (subst constraint_loop.simps) simp
  qed
next
  case False
  then show ?thesis
    unfolding constraints_for_time_window_def constraint_ticks_def
    by (subst constraint_loop.simps) (simp add: period_range_def timedelta_minutes_0)
qed

theorem empty_window_no_constraints_witness:
  "constraints_for_time_window sample_env
     \<lparr>maximum_lag_minutes = 1440, cron_schedule = Some ''0 9 * * *'', cron_schedule_timezone = None\<rparr>
     32400000000 32400000000 {[''a'']} = Some {} \<and>
   constraints_for_time_window sample_env
     \<lparr>maximum_lag_minutes = 60, cron_schedule = None, cron_schedule_timezone = None\<rparr>
     7 7 {[''a'']} = Some {}"
proof -
  let ?p = "\<lparr>maximum_lag_minutes = 1440, cron_schedule = Some ''0 9 * * *'',
             cron_schedule_timezone = None\<rparr>"
  let ?q = "\<lparr>maximum_lag_minutes = 60, cron_schedule = None, cron_schedule_timezone = None\<rparr>"
  have "truthy (cron_schedule ?p) \<longrightarrow>
       (\<forall>t. cron_string_iterator sample_env 32400000000 (the (cron_schedule ?p))
                (cron_schedule_timezone ?p) 0 = Some t \<longrightarrow> 32400000000 \<le> t)"
    using sample_cron_forward_from by blast
  moreover have "truthy (cron_schedule ?q) \<longrightarrow>
       (\<forall>t. cron_string_iterator sample_env 7 (the (cron_schedule ?q))
                (cron_schedule_timezone ?q) 0 = Some t \<longrightarrow> 7 \<le> t)"
    by (simp add: truthy_def)
  ultimately show ?thesis
    using empty_window_no_constraints [of ?p sample_env 32400000000 "{[''a'']}"]
      empty_window_no_constraints [of ?q sample_env 7 "{[''a'']}"]
    by blast
qed


section \<open>Lateness of an asset\<close>



lemma evaluation_tick_exists:
  assumes "truthy (cron_schedule self) \<longrightarrow>
           reverse_cron_string_iterator env evaluation_time (the (cron_schedule self))
             (cron_schedule_timezone self) 0 \<noteq> None"
  shows "\<exists>tick. evaluation_tick_of env self evaluation_time = Inr tick"
proof (cases "truthy (cron_schedule self)")
  case True
  with assms obtain t where
    "reverse_cron_string_iterator env evaluation_time (the (cron_schedule self))
       (cron_schedule_timezone self) 0 = Some t"
    by auto
  with True show ?thesis by (simp add: evaluation_tick_of_def)
next
  case False
  then show ?thesis by (simp add: evaluation_tick_of_def)
qed

text \<open>
  C4. When the evaluation tick exists (always without a cron schedule; with one, when
  the reverse iterator yields a tick), \<^verbatim>\<open>minutes_late\<close> returns \<^verbatim>\<open>None\<close> exactly when some
  key of \<^verbatim>\<open>used_data_times\<close> maps to \<^verbatim>\<open>None\<close>, whatever the other values are.
\<close>

theorem minutes_late_unknown_iff:
  assumes "truthy (cron_schedule self) \<longrightarrow>
           reverse_cron_string_iterator env evaluation_time (the (cron_schedule self))
             (cron_schedule_timezone self) 0 \<noteq> None"
  shows "minutes_late env self evaluation_time used_data_times = Inr None
         \<longleftrightarrow> (\<exists>k. (k, None) \<in> set used_data_times)"
proof -
  obtain tick where "evaluation_tick_of env self evaluation_time = Inr tick"
    using evaluation_tick_exists [OF assms] by blast
  then have "minutes_late env self evaluation_time used_data_times = Inr None
             \<longleftrightarrow> None \<in> set (map snd used_data_times)"
    by (simp add: minutes_late_def late_loop_None_iff)
  also have "\<dots> \<longleftrightarrow> (\<exists>k. (k, None) \<in> set used_data_times)"
    by force
  finally show ?thesis .
qed

theorem minutes_late_unknown_iff_witness:
  "minutes_late sample_env
     \<lparr>maximum_lag_minutes = 1440, cron_schedule = Some ''0 9 * * *'',
      cron_schedule_timezone = Some ''UTC''\<rparr>
     36000000000 [(''a'', Some 0), (''b'', None), (''c'', Some 36000000000)] = Inr None \<and>
   minutes_late sample_env
     \<lparr>maximum_lag_minutes = 1440, cron_schedule = Some ''0 9 * * *'',
      cron_schedule_timezone = Some ''UTC''\<rparr>
     36000000000 [(''a'', Some 0), (''c'', Some 36000000000)] \<noteq> Inr None"
proof -
  let ?p = "\<lparr>maximum_lag_minutes = 1440, cron_schedule = Some ''0 9 * * *'',
             cron_schedule_timezone = Some ''UTC''\<rparr>"
  have h: "truthy (cron_schedule ?p) \<longrightarrow>
           reverse_cron_string_iterator sample_env 36000000000 (the (cron_schedule ?p))
             (cron_schedule_timezone ?p) 0 \<noteq> None"
    by (simp add: sample_env_def)
  show ?thesis
    using minutes_late_unknown_iff [OF h, of "[(''a'', Some 0), (''b'', None), (''c'', Some 36000000000)]"]
      minutes_late_unknown_iff [OF h, of "[(''a'', Some 0), (''c'', Some 36000000000)]"]
    by auto
qed





text \<open>
  C7. With an empty \<^verbatim>\<open>used_data_times\<close>, \<^verbatim>\<open>minutes_late\<close> returns 0, which is not the
  unknown result \<^verbatim>\<open>None\<close>, whenever the evaluation tick exists (always without a cron
  schedule; with one, when the reverse iterator yields a tick).
\<close>

theorem minutes_late_empty:
  assumes "truthy (cron_schedule self) \<longrightarrow>
           reverse_cron_string_iterator env evaluation_time (the (cron_schedule self))
             (cron_schedule_timezone self) 0 \<noteq> None"
  shows "minutes_late env self evaluation_time ([] :: ('k \<times> instant option) list) = Inr (Some 0) \<and>
         minutes_late env self evaluation_time ([] :: ('k \<times> instant option) list) \<noteq> Inr None"
proof -
  obtain tick where "evaluation_tick_of env self evaluation_time = Inr tick"
    using evaluation_tick_exists [OF assms] by blast
  then show ?thesis by (simp add: minutes_late_def)
qed

theorem minutes_late_empty_witness:
  "minutes_late sample_env
     \<lparr>maximum_lag_minutes = 1440, cron_schedule = Some ''0 9 * * *'',
      cron_schedule_timezone = Some ''UTC''\<rparr> 36000000000 ([] :: (string \<times> int option) list)
     = Inr (Some 0) \<and>
   minutes_late sample_env
     \<lparr>maximum_lag_minutes = 60, cron_schedule = None, cron_schedule_timezone = None\<rparr>
     36000000000 ([] :: (string \<times> int option) list) = Inr (Some 0)"
proof -
  let ?p = "\<lparr>maximum_lag_minutes = 1440, cron_schedule = Some ''0 9 * * *'',
             cron_schedule_timezone = Some ''UTC''\<rparr>"
  let ?q = "\<lparr>maximum_lag_minutes = 60, cron_schedule = None, cron_schedule_timezone = None\<rparr>"
  have hp: "truthy (cron_schedule ?p) \<longrightarrow>
           reverse_cron_string_iterator sample_env 36000000000 (the (cron_schedule ?p))
             (cron_schedule_timezone ?p) 0 \<noteq> None"
    by (simp add: sample_env_def)
  have hq: "truthy (cron_schedule ?q) \<longrightarrow>
           reverse_cron_string_iterator sample_env 36000000000 (the (cron_schedule ?q))
             (cron_schedule_timezone ?q) 0 \<noteq> None"
    by (simp add: truthy_def)
  show ?thesis
    using minutes_late_empty [OF hp, where ?'k = string]
      minutes_late_empty [OF hq, where ?'k = string]
    by simp
qed


section \<open>The cap on the number of constraints\<close>

lemma timedelta_minutes_of_nat: "timedelta_minutes (of_nat j) = int j * 60000000"
proof -
  have "(of_nat j :: rat) * 60000000 = of_int (int j * 60000000)" by simp
  then show ?thesis
    unfolding timedelta_minutes_def by (simp only: round_half_even_of_int)
qed

lemma sample_period_run:
  "constraints_for_time_window env
     \<lparr>maximum_lag_minutes = 9, cron_schedule = None, cron_schedule_timezone = None\<rparr>
     0 6060000000 keys
   = Some (constraint_at keys 540000000 ` (\<lambda>j. int j * 60000000) ` {0..<101})"
proof -
  let ?p = "\<lparr>maximum_lag_minutes = 9, cron_schedule = None, cron_schedule_timezone = None\<rparr>"
  let ?f = "\<lambda>j. int j * 60000000"
  have lag: "maximum_lag_delta ?p = 540000000"
    by (simp add: maximum_lag_delta_def timedelta_minutes_def round_half_even_def)
  have ticks: "\<forall>j<101. constraint_ticks env ?p 0 6060000000 j = Some (?f j) \<and> ?f j < 6060000000"
    by (simp add: constraint_ticks_def truthy_def period_range_def timedelta_minutes_of_nat)
  have inj: "inj_on ?f {0..<101}" by (simp add: inj_on_def)
  have "constraint_loop (constraint_ticks env ?p 0 6060000000) 540000000 6060000000 keys 0
          (constraint_at keys 540000000 ` ?f ` {0..<0})
        = Some (constraint_at keys 540000000 ` ?f ` {0..<101})"
    by (rule constraint_loop_first_101 [OF ticks inj]) simp
  then show ?thesis by (simp add: constraints_for_time_window_def lag)
qed

lemma sample_period_card:
  "card (constraint_at keys 540000000 ` (\<lambda>j. int j * 60000000) ` {0..<101}) = 101"
  by (rule card_first) (simp add: inj_on_def)

text \<open>
  The loop does not always end: with \<^verbatim>\<open>maximum_lag_minutes = -1\<close> and no cron schedule the
  sampling step \<^verbatim>\<open>-1 / 10.0 + 0.1\<close> is zero, the iterator yields the start of the window for
  ever, and the set never grows past one constraint.
\<close>

lemma constraints_for_time_window_diverges:
  assumes "\<not> truthy (cron_schedule self)" "maximum_lag_minutes self = - 1"
    "window_start < window_end"
  shows "constraints_for_time_window env self window_start window_end keys = None"
proof -
  let ?ticks = "constraint_ticks env self window_start window_end"
  have ticks: "\<forall>m. ?ticks m = Some window_start"
    using assms by (simp add: constraint_ticks_def period_range_def timedelta_minutes_0)
  let ?c = "constraint_at keys (maximum_lag_delta self) window_start"
  have "constraints_for_time_window env self window_start window_end keys
        = constraint_loop ?ticks (maximum_lag_delta self) window_end keys (Suc 0) {?c}"
    unfolding constraints_for_time_window_def
    using ticks assms(3) by (subst constraint_loop.simps) (simp add: Let_def)
  moreover have "constraint_loop ?ticks (maximum_lag_delta self) window_end keys (Suc 0) {?c} = None"
  proof (cases "constraint_loop ?ticks (maximum_lag_delta self) window_end keys (Suc 0) {?c}")
    case None
    then show ?thesis .
  next
    case (Some r)
    from constraint_loop_stuck [OF this, of window_start] ticks assms(3)
    show ?thesis by simp
  qed
  ultimately show ?thesis by simp
qed

text \<open>
  C2, as the code has it. A returned set holds at most 101 constraints: the loop leaves
  once the set holds more than 100 of them. The call returns whenever the tick iterator
  never yields the same tick twice, and so for every policy without a cron schedule
  whose lag is not negative.
\<close>

theorem constraints_at_most_101:
  "(constraints_for_time_window env self window_start window_end upstream_keys = Some constraints
      \<longrightarrow> finite constraints \<and> card constraints \<le> 101) \<and>
   ((\<forall>i j. i < j \<longrightarrow> constraint_ticks env self window_start window_end i \<noteq> None \<longrightarrow>
        constraint_ticks env self window_start window_end j
          \<noteq> constraint_ticks env self window_start window_end i)
      \<longrightarrow> constraints_for_time_window env self window_start window_end upstream_keys \<noteq> None) \<and>
   (\<not> truthy (cron_schedule self) \<and> 0 \<le> maximum_lag_minutes self
      \<longrightarrow> constraints_for_time_window env self window_start window_end upstream_keys \<noteq> None)"
proof -
  let ?ticks = "constraint_ticks env self window_start window_end"
  have cap: "finite constraints \<and> card constraints \<le> 101"
    if "constraints_for_time_window env self window_start window_end upstream_keys
          = Some constraints"
    using constraint_loop_card [OF that [unfolded constraints_for_time_window_def]] by simp
  have returns: "constraints_for_time_window env self window_start window_end upstream_keys \<noteq> None"
    if "\<forall>i j. i < j \<longrightarrow> ?ticks i \<noteq> None \<longrightarrow> ?ticks j \<noteq> ?ticks i"
  proof -
    from that
    have "\<exists>r. constraint_loop ?ticks (maximum_lag_delta self) window_end upstream_keys 0 {}
               = Some r"
      by (rule constraint_loop_returns) simp_all
    then show ?thesis by (auto simp: constraints_for_time_window_def)
  qed
  have "\<forall>i j. i < j \<longrightarrow> ?ticks i \<noteq> None \<longrightarrow> ?ticks j \<noteq> ?ticks i"
    if "\<not> truthy (cron_schedule self) \<and> 0 \<le> maximum_lag_minutes self"
    using that period_range_no_repeat [of "maximum_lag_minutes self"]
    by (simp add: constraint_ticks_def)
  with cap returns show ?thesis by blast
qed

theorem constraints_at_most_101_witness:
  "finite (constraint_at {[''a'']} 540000000 ` (\<lambda>j. int j * 60000000) ` {0..<101}) \<and>
   card (constraint_at {[''a'']} 540000000 ` (\<lambda>j. int j * 60000000) ` {0..<101}) \<le> 101 \<and>
   constraints_for_time_window sample_env
     \<lparr>maximum_lag_minutes = 9, cron_schedule = None, cron_schedule_timezone = None\<rparr>
     0 6060000000 {[''a'']} \<noteq> None"
proof -
  let ?p = "\<lparr>maximum_lag_minutes = 9, cron_schedule = None, cron_schedule_timezone = None\<rparr>"
  have "\<not> truthy (cron_schedule ?p) \<and> 0 \<le> maximum_lag_minutes ?p"
    by (simp add: truthy_def)
  with constraints_at_most_101 [of sample_env ?p 0 6060000000 "{[''a'']}"
      "constraint_at {[''a'']} 540000000 ` (\<lambda>j. int j * 60000000) ` {0..<101}"]
    sample_period_run [of sample_env "{[''a'']}"]
  show ?thesis by blast
qed

theorem constraints_at_most_100_counterexample:
  "map_option card
     (constraints_for_time_window sample_env
        \<lparr>maximum_lag_minutes = 9, cron_schedule = None, cron_schedule_timezone = None\<rparr>
        0 6060000000 {[''a'']})
   = Some 101"
  by (simp only: sample_period_run sample_period_card option.map)


section \<open>Construction of a policy\<close>




text \<open>
  C9, as the code has it. A policy that is constructed stores \<^verbatim>\<open>float(maximum_lag_minutes)\<close>
  of a numeric argument, whatever its sign: nothing requires the lag to be positive.
  When the cron string and the timezone pass their checks (the cron string is absent or
  valid; the timezone is absent, or comes with a cron string and loads), every numeric
  argument is accepted, zero and negative ones included, and every non-numeric argument
  fails with the parameter-check error for \<^verbatim>\<open>maximum_lag_minutes\<close>. A non-numeric argument
  never yields a policy.
\<close>

theorem maximum_lag_numeric_not_positive:
  "(FreshnessPolicy_new env lag cron tz = Inr p \<longrightarrow>
      numeric_param lag ''maximum_lag_minutes'' = Inr lag \<and>
      maximum_lag_minutes p = float_of lag \<and>
      cron_schedule p = cron \<and> cron_schedule_timezone p = tz) \<and>
   ((case cron of None \<Rightarrow> True | Some c' \<Rightarrow> is_valid_cron_schedule env c') \<and>
    (case tz of None \<Rightarrow> True | Some z \<Rightarrow> cron \<noteq> None \<and> timezone_loads env z) \<longrightarrow>
      FreshnessPolicy_new env (PyInt i) cron tz
        = Inr \<lparr>maximum_lag_minutes = of_int i, cron_schedule = cron,
               cron_schedule_timezone = tz\<rparr> \<and>
      FreshnessPolicy_new env (PyFloat x) cron tz
        = Inr \<lparr>maximum_lag_minutes = x, cron_schedule = cron,
               cron_schedule_timezone = tz\<rparr> \<and>
      FreshnessPolicy_new env (PyBool b) cron tz
        = Inr \<lparr>maximum_lag_minutes = (if b then 1 else 0), cron_schedule = cron,
               cron_schedule_timezone = tz\<rparr> \<and>
      FreshnessPolicy_new env PyNone cron tz
        = Inl (ParameterCheckError ''maximum_lag_minutes'' None) \<and>
      FreshnessPolicy_new env (PyStr s) cron tz
        = Inl (ParameterCheckError ''maximum_lag_minutes'' None)) \<and>
   (lag = PyNone \<or> lag = PyStr s \<longrightarrow>
      (\<exists>e. FreshnessPolicy_new env lag cron tz = Inl e) \<and>
      FreshnessPolicy_new env lag None None
        = Inl (ParameterCheckError ''maximum_lag_minutes'' None) \<and>
      (is_valid_cron_schedule env c \<longrightarrow>
         FreshnessPolicy_new env lag (Some c) None
           = Inl (ParameterCheckError ''maximum_lag_minutes'' None)))"
proof -
  have ok: "numeric_param lag ''maximum_lag_minutes'' = Inr lag \<and>
      maximum_lag_minutes p = float_of lag \<and>
      cron_schedule p = cron \<and> cron_schedule_timezone p = tz"
    if "FreshnessPolicy_new env lag cron tz = Inr p"
    using that
    by (auto simp: FreshnessPolicy_new_def numeric_param_def
        split: option.splits sum.splits if_splits pyvalue.splits)
  have pass: "FreshnessPolicy_new env v cron tz
        = (case numeric_param v ''maximum_lag_minutes'' of
             Inl e \<Rightarrow> Inl e
           | Inr w \<Rightarrow> Inr \<lparr>maximum_lag_minutes = float_of w, cron_schedule = cron,
                           cron_schedule_timezone = tz\<rparr>)"
    if "(case cron of None \<Rightarrow> True | Some c' \<Rightarrow> is_valid_cron_schedule env c') \<and>
        (case tz of None \<Rightarrow> True | Some z \<Rightarrow> cron \<noteq> None \<and> timezone_loads env z)"
    for v
    using that
    by (auto simp: FreshnessPolicy_new_def param_invariant_def split: option.splits)
  have checked: "FreshnessPolicy_new env (PyInt i) cron tz
        = Inr \<lparr>maximum_lag_minutes = of_int i, cron_schedule = cron,
               cron_schedule_timezone = tz\<rparr> \<and>
      FreshnessPolicy_new env (PyFloat x) cron tz
        = Inr \<lparr>maximum_lag_minutes = x, cron_schedule = cron,
               cron_schedule_timezone = tz\<rparr> \<and>
      FreshnessPolicy_new env (PyBool b) cron tz
        = Inr \<lparr>maximum_lag_minutes = (if b then 1 else 0), cron_schedule = cron,
               cron_schedule_timezone = tz\<rparr> \<and>
      FreshnessPolicy_new env PyNone cron tz
        = Inl (ParameterCheckError ''maximum_lag_minutes'' None) \<and>
      FreshnessPolicy_new env (PyStr s) cron tz
        = Inl (ParameterCheckError ''maximum_lag_minutes'' None)"
    if "(case cron of None \<Rightarrow> True | Some c' \<Rightarrow> is_valid_cron_schedule env c') \<and>
        (case tz of None \<Rightarrow> True | Some z \<Rightarrow> cron \<noteq> None \<and> timezone_loads env z)"
    unfolding pass [OF that] by (simp add: numeric_param_def float_of_def)
  have bad: "numeric_param lag ''maximum_lag_minutes''
               = Inl (ParameterCheckError ''maximum_lag_minutes'' None)"
    if "lag = PyNone \<or> lag = PyStr s"
    using that by (auto simp: numeric_param_def)
  have fails: "\<exists>e. FreshnessPolicy_new env lag cron tz = Inl e"
    if "lag = PyNone \<or> lag = PyStr s"
    using bad [OF that]
    by (auto simp: FreshnessPolicy_new_def split: option.splits sum.splits)
  have plain: "FreshnessPolicy_new env lag None None
        = Inl (ParameterCheckError ''maximum_lag_minutes'' None)"
    if "lag = PyNone \<or> lag = PyStr s"
    using bad [OF that] by (simp add: FreshnessPolicy_new_def)
  have withcron: "FreshnessPolicy_new env lag (Some c) None
           = Inl (ParameterCheckError ''maximum_lag_minutes'' None)"
    if "lag = PyNone \<or> lag = PyStr s" "is_valid_cron_schedule env c"
    using bad [OF that(1)] that(2) by (simp add: FreshnessPolicy_new_def)
  from ok checked fails plain withcron show ?thesis by blast
qed

theorem maximum_lag_numeric_not_positive_witness:
  "FreshnessPolicy_new sample_env (PyInt 0) (Some ''0 9 * * *'') (Some ''UTC'')
     = Inr \<lparr>maximum_lag_minutes = 0, cron_schedule = Some ''0 9 * * *'',
            cron_schedule_timezone = Some ''UTC''\<rparr> \<and>
   FreshnessPolicy_new sample_env (PyFloat (- 5)) (Some ''0 9 * * *'') (Some ''UTC'')
     = Inr \<lparr>maximum_lag_minutes = - 5, cron_schedule = Some ''0 9 * * *'',
            cron_schedule_timezone = Some ''UTC''\<rparr> \<and>
   numeric_param (PyInt 0) ''maximum_lag_minutes'' = Inr (PyInt 0) \<and>
   FreshnessPolicy_new sample_env (PyStr ''soon'') (Some ''0 9 * * *'') (Some ''UTC'')
     = Inl (ParameterCheckError ''maximum_lag_minutes'' None) \<and>
   FreshnessPolicy_new sample_env PyNone (Some ''0 9 * * *'') (Some ''UTC'')
     = Inl (ParameterCheckError ''maximum_lag_minutes'' None)"
proof -
  let ?cron = "Some ''0 9 * * *''"
  let ?tz = "Some ''UTC''"
  let ?p = "\<lparr>maximum_lag_minutes = 0, cron_schedule = ?cron, cron_schedule_timezone = ?tz\<rparr>"
  have checks: "(case ?cron of None \<Rightarrow> True | Some c' \<Rightarrow> is_valid_cron_schedule sample_env c') \<and>
      (case ?tz of None \<Rightarrow> True | Some z \<Rightarrow> ?cron \<noteq> None \<and> timezone_loads sample_env z)"
    by (simp add: sample_env_def)
  note inst = maximum_lag_numeric_not_positive
    [of sample_env "PyInt 0" ?cron ?tz ?p 0 "- 5" True "''soon''" "''0 9 * * *''"]
  from inst [THEN conjunct2, THEN conjunct1] checks
  have accepted: "FreshnessPolicy_new sample_env (PyInt 0) ?cron ?tz = Inr ?p"
    and negative: "FreshnessPolicy_new sample_env (PyFloat (- 5)) ?cron ?tz
      = Inr \<lparr>maximum_lag_minutes = - 5, cron_schedule = ?cron, cron_schedule_timezone = ?tz\<rparr>"
    and refused: "FreshnessPolicy_new sample_env (PyStr ''soon'') ?cron ?tz
      = Inl (ParameterCheckError ''maximum_lag_minutes'' None)"
      "FreshnessPolicy_new sample_env PyNone ?cron ?tz
      = Inl (ParameterCheckError ''maximum_lag_minutes'' None)"
    by simp_all
  from inst [THEN conjunct1] accepted
  have "numeric_param (PyInt 0) ''maximum_lag_minutes'' = Inr (PyInt 0)" by simp
  with accepted negative refused show ?thesis by simp
qed

theorem maximum_lag_positive_counterexample:
  "FreshnessPolicy_new sample_env (PyFloat (- 5)) None None
     = Inr \<lparr>maximum_lag_minutes = - 5, cron_schedule = None, cron_schedule_timezone = None\<rparr> \<and>
   \<not> 0 < maximum_lag_minutes
           (projr (FreshnessPolicy_new sample_env (PyFloat (- 5)) None None))"
  by (simp add: FreshnessPolicy_new_def numeric_param_def float_of_def)

text \<open>
  C10. Pickling a constructed policy and building it again (\<^verbatim>\<open>__reduce__\<close>, then
  \<^verbatim>\<open>_create\<close> on the arguments) keeps \<^verbatim>\<open>maximum_lag_minutes\<close> and \<^verbatim>\<open>cron_schedule\<close> and sets
  \<^verbatim>\<open>cron_schedule_timezone\<close> to \<^verbatim>\<open>None\<close>; a policy constructed with a timezone is not equal
  to the policy built again.
\<close>

theorem pickle_roundtrip_drops_timezone:
  assumes "FreshnessPolicy_new env lag cron tz = Inr p"
  shows "FreshnessPolicy_create env (FreshnessPolicy_reduce p)
           = Inr \<lparr>maximum_lag_minutes = maximum_lag_minutes p,
                  cron_schedule = cron_schedule p,
                  cron_schedule_timezone = None\<rparr> \<and>
         (tz \<noteq> None \<longrightarrow> FreshnessPolicy_create env (FreshnessPolicy_reduce p) \<noteq> Inr p)"
proof -
  from assms have fields: "cron_schedule p = cron" "cron_schedule_timezone p = tz"
    by (auto simp: FreshnessPolicy_new_def split: option.splits sum.splits if_splits)
  from assms have valid: "cron = Some c \<Longrightarrow> is_valid_cron_schedule env c" for c
    by (auto simp: FreshnessPolicy_new_def split: option.splits sum.splits if_splits)
  have again: "FreshnessPolicy_create env (FreshnessPolicy_reduce p)
           = Inr \<lparr>maximum_lag_minutes = maximum_lag_minutes p,
                  cron_schedule = cron_schedule p,
                  cron_schedule_timezone = None\<rparr>"
    using fields valid
    by (cases cron)
       (simp_all add: FreshnessPolicy_create_def FreshnessPolicy_reduce_def
          FreshnessPolicy_new_def numeric_param_def float_of_def)
  moreover have "\<lparr>maximum_lag_minutes = maximum_lag_minutes p,
                  cron_schedule = cron_schedule p,
                  cron_schedule_timezone = None\<rparr> \<noteq> p" if "tz \<noteq> None"
  proof
    assume "\<lparr>maximum_lag_minutes = maximum_lag_minutes p, cron_schedule = cron_schedule p,
             cron_schedule_timezone = None\<rparr> = p"
    then have "cron_schedule_timezone p = None"
      by (metis FreshnessPolicy.select_convs(3))
    with fields that show False by simp
  qed
  ultimately show ?thesis by simp
qed

theorem pickle_roundtrip_drops_timezone_witness:
  "FreshnessPolicy_create sample_env
     (FreshnessPolicy_reduce
        \<lparr>maximum_lag_minutes = 30, cron_schedule = Some ''0 9 * * *'',
         cron_schedule_timezone = Some ''UTC''\<rparr>)
   = Inr \<lparr>maximum_lag_minutes = 30, cron_schedule = Some ''0 9 * * *'',
          cron_schedule_timezone = None\<rparr> \<and>
   FreshnessPolicy_create sample_env
     (FreshnessPolicy_reduce
        \<lparr>maximum_lag_minutes = 30, cron_schedule = Some ''0 9 * * *'',
         cron_schedule_timezone = Some ''UTC''\<rparr>)
   \<noteq> Inr \<lparr>maximum_lag_minutes = 30, cron_schedule = Some ''0 9 * * *'',
           cron_schedule_timezone = Some ''UTC''\<rparr>"
proof -
  let ?p = "\<lparr>maximum_lag_minutes = 30, cron_schedule = Some ''0 9 * * *'',
             cron_schedule_timezone = Some ''UTC''\<rparr>"
  have new: "FreshnessPolicy_new sample_env (PyInt 30) (Some ''0 9 * * *'') (Some ''UTC'') = Inr ?p"
    by (simp add: FreshnessPolicy_new_def param_invariant_def numeric_param_def float_of_def
        sample_env_def)
  from pickle_roundtrip_drops_timezone [OF new] show ?thesis by simp
qed

end
